theory Spec2Isabelle
  imports Main "HOL-Library.Sublist"
begin

section \<open>File discovery\<close>

text \<open>
  The working directory is a list of entries in enumeration order. An entry has a name
  and says whether it is a directory: that is all \<open>glob\<close> with \<open>nodir: true\<close> reads.
  JavaScript strings are modelled as \<open>string\<close>; \<open>endsWith\<close> is \<open>suffix\<close> and
  \<open>includes\<close> on an array is membership.
\<close>

record dirent =
  entry_name :: string
  is_directory :: bool

text \<open>
  The patterns the program passes to \<open>glob\<close> are made of literal characters and
  \<open>*\<close> only. \<open>*\<close> stands for any run of characters of one path segment; the names of
  directory entries hold no separator, so every character of a name qualifies. The
  pattern \<open>.env*\<close> starts with a literal dot, so names starting with a dot are
  matched by it; patterns of the \<open>ignore\<close> list are matched with dot files included.
\<close>

fun glob_match :: "string \<Rightarrow> string \<Rightarrow> bool" where
  "glob_match [] [] = True"
| "glob_match [] (c # cs) = False"
| "glob_match (p # ps) [] = (p = CHR ''*'' \<and> glob_match ps [])"
| "glob_match (p # ps) (c # cs) =
     (if p = CHR ''*'' then glob_match ps (c # cs) \<or> glob_match (p # ps) cs
      else p = c \<and> glob_match ps cs)"

text \<open>
  \<open>glob(pattern, {ignore, nodir})\<close> over the working directory: the names of the
  entries that match the pattern, match no pattern of the ignore list and, with
  \<open>nodir\<close>, are not directories.
\<close>

definition glob :: "string \<Rightarrow> string list \<Rightarrow> bool \<Rightarrow> dirent list \<Rightarrow> string list" where
  "glob pattern ignore nodir dir =
     map entry_name
       (filter (\<lambda>e. glob_match pattern (entry_name e)
                  \<and> \<not> list_ex (\<lambda>i. glob_match i (entry_name e)) ignore
                  \<and> \<not> (nodir \<and> is_directory e)) dir)"

definition endsWith :: "string \<Rightarrow> string \<Rightarrow> bool" where
  "endsWith file sfx = suffix sfx file"

text \<open>\<open>findEnvFiles\<close> (the same pattern, ignore list and filter in every variant that has it).\<close>

definition findEnvFiles :: "dirent list \<Rightarrow> string list" where
  "findEnvFiles dir =
     (let files = glob ''.env*'' [''.env.keys'', ''.env.keys.json'', ''*.vault''] True dir
      in filter (\<lambda>file. \<not> endsWith file ''.keys'' \<and> \<not> endsWith file ''.vault'') files)"

text \<open>
  The specification's description of discovery, word for word: the regular files whose
  names begin with the environment-file prefix, minus the key file, its JSON variant and
  any vault-suffixed file.
\<close>

definition discover_spec :: "dirent list \<Rightarrow> string list" where
  "discover_spec dir =
     map entry_name
       (filter (\<lambda>e. \<not> is_directory e
                  \<and> prefix ''.env'' (entry_name e)
                  \<and> entry_name e \<noteq> ''.env.keys''
                  \<and> entry_name e \<noteq> ''.env.keys.json''
                  \<and> \<not> suffix ''.vault'' (entry_name e)) dir)"

text \<open>What the code computes: the description above, minus every name ending in \<open>.keys\<close>.\<close>

definition discover_amended :: "dirent list \<Rightarrow> string list" where
  "discover_amended dir =
     map entry_name
       (filter (\<lambda>e. \<not> is_directory e
                  \<and> prefix ''.env'' (entry_name e)
                  \<and> entry_name e \<noteq> ''.env.keys''
                  \<and> entry_name e \<noteq> ''.env.keys.json''
                  \<and> \<not> suffix ''.keys'' (entry_name e)
                  \<and> \<not> suffix ''.vault'' (entry_name e)) dir)"

section \<open>Values, effects and completions\<close>

text \<open>
  A JavaScript error object: its \<open>name\<close>, its \<open>message\<close> and the \<open>isTtyError\<close> flag
  that the prompt library sets on some of its failures. \<open>new Error(msg)\<close> has the name
  \<open>Error\<close>; the error with which the prompt library rejects when the operator
  interrupts a prompt has the name \<open>ExitPromptError\<close>.
\<close>

datatype js_error = JsError (err_name: string) (err_message: string) (isTtyError: bool)

definition new_Error :: "string \<Rightarrow> js_error" where
  "new_Error msg = JsError ''Error'' msg False"

datatype printable = Str string | Obj js_error

text \<open>
  What reaches the operating system when a child is started: one line handed to a
  shell, a program with its argument vector, or the array given to the \<open>zx\<close> tag.
\<close>

datatype spawn_request = Shell string | Exec string "string list" | Zx "string list"

datatype child_event = StdoutData string | StderrData string | Close "int option"

text \<open>
  The observable trace of a run. Colour (\<open>chalk\<close>) and the pictographs of the messages
  are cosmetic and left out of the texts; \<open>TimeEnd\<close> is the line \<open>console.timeEnd\<close>
  prints, without the measured time. \<open>Spawned\<close> records a child started by the runner;
  the lookup of \<open>dotenvx\<close> on the search path is read from the world and leaves no event.
\<close>

datatype event =
    ConsoleLog "printable list"
  | ConsoleError "printable list"
  | TimeEnd string
  | StdoutWrite string
  | StderrWrite string
  | ListPrompt string "string list"
  | CheckboxPrompt string "string list"
  | Spawned spawn_request

text \<open>
  How an asynchronous function ends: it returns, it throws (the promise rejects), it
  calls \<open>process.exit\<close>, or its promise is never settled.
\<close>

datatype 'a completion = Normal 'a | Throw js_error | ProcessExit int | Pending

datatype exit_status = Exited int | Hung

fun await ::
  "'a completion \<times> event list \<Rightarrow> ('a \<Rightarrow> event list \<Rightarrow> 'b completion \<times> event list)
     \<Rightarrow> 'b completion \<times> event list" where
  "await (Normal x, log) f = f x log"
| "await (Throw e, log) f = (Throw e, log)"
| "await (ProcessExit c, log) f = (ProcessExit c, log)"
| "await (Pending, log) f = (Pending, log)"

text \<open>\<open>try { body } catch (error) { handler }\<close>: only a throw reaches the handler.\<close>

fun try_catch ::
  "'a completion \<times> event list \<Rightarrow> (js_error \<Rightarrow> event list \<Rightarrow> 'a completion \<times> event list)
     \<Rightarrow> 'a completion \<times> event list" where
  "try_catch (Throw e, log) h = h e log"
| "try_catch (c, log) h = (c, log)"

text \<open>
  Everything outside the program that a run reads: the command line, the exit status of
  the lookup of \<open>dotenvx\<close> on the search path (\<open>which\<close> or \<open>where\<close>; \<open>None\<close> when there
  is no status), the working directory, how the two prompts settle (the value the
  operator confirms, or the error the prompt rejects with), and what a started child
  does.
\<close>

record world =
  argv :: "string list"
  which_status :: "int option"
  cwd :: "dirent list"
  list_prompt :: "js_error + string"
  checkbox_prompt :: "string list \<Rightarrow> js_error + string list"
  child :: "spawn_request \<Rightarrow> child_event list"

section \<open>Availability prober\<close>

definition checkDotenvxInstallation :: "world \<Rightarrow> bool" where
  "checkDotenvxInstallation w = (which_status w = Some 0)"

text \<open>\<open>fs.access(".env.keys")\<close> resolves when the directory has an entry of that name.\<close>

definition checkEnvKeysFile :: "world \<Rightarrow> bool" where
  "checkEnvKeysFile w = (''.env.keys'' \<in> set (map entry_name (cwd w)))"

section \<open>Selection prompt\<close>

text \<open>
  \<open>selectFiles\<close> (the same text in \<open>index.ts\<close> and in the \<open>spawn\<close> variant). The
  choices of the checkbox prompt carry the values \<open>ALL\<close> and then each file; the
  separator carries none.
\<close>

definition selectFiles ::
  "world \<Rightarrow> string list \<Rightarrow> string \<Rightarrow> event list \<Rightarrow> string list completion \<times> event list" where
  "selectFiles w files action log =
     (if length files = 0
      then (Normal [], log @ [ConsoleLog [Str ''No .env files found in the current directory.'']])
      else
        (let choices = ''ALL'' # files;
             log' = log @ [CheckboxPrompt (''Select .env files to '' @ action @ '':'' @ [CHR 0x0A]) choices]
         in case checkbox_prompt w choices of
              Inl e \<Rightarrow> (Throw e, log')
            | Inr selectedFiles \<Rightarrow>
                if ''ALL'' \<in> set selectedFiles then (Normal files, log')
                else (Normal selectedFiles, log')))"

section \<open>Subprocess runner\<close>

record exec_result =
  stdout :: string
  stderr :: string
  exitCode :: int

text \<open>\<open>Array.prototype.join\<close>.\<close>

fun join :: "string list \<Rightarrow> string \<Rightarrow> string" where
  "join [] sep = []"
| "join [x] sep = x"
| "join (x # y # ys) sep = x @ sep @ join (y # ys) sep"

text \<open>
  Node's \<open>child_process.spawn(file, args, {shell})\<close>: with the \<open>shell\<close> option the
  file and the arguments are joined with single spaces into one command line, which is
  handed to the shell; without it the arguments stay an argument vector.
\<close>

definition spawn :: "string \<Rightarrow> string list \<Rightarrow> bool \<Rightarrow> spawn_request" where
  "spawn file args shell =
     (if shell then Shell (if length args > 0 then file @ '' '' @ join args '' '' else file)
      else Exec file args)"

text \<open>
  The handlers that \<open>executeCommand\<close> of the \<open>spawn\<close> variant attaches to the child:
  each chunk of output is written through to the parent's stream and appended to a
  buffer; the promise is resolved by the \<open>close\<close> event, with \<open>code ?? 0\<close> as the exit
  code. While no \<open>close\<close> event arrives the promise stays unsettled.
\<close>

fun on_child_events ::
  "child_event list \<Rightarrow> string \<Rightarrow> string \<Rightarrow> event list \<Rightarrow> exec_result completion \<times> event list" where
  "on_child_events [] out err log = (Pending, log)"
| "on_child_events (StdoutData d # evs) out err log =
     on_child_events evs (out @ d) err (log @ [StdoutWrite d])"
| "on_child_events (StderrData d # evs) out err log =
     on_child_events evs out (err @ d) (log @ [StderrWrite d])"
| "on_child_events (Close code # evs) out err log =
     (Normal \<lparr>stdout = out, stderr = err,
              exitCode = (case code of None \<Rightarrow> 0 | Some c \<Rightarrow> c)\<rparr>, log)"

definition executeCommand_spawn ::
  "world \<Rightarrow> string \<Rightarrow> string list \<Rightarrow> event list \<Rightarrow> exec_result completion \<times> event list" where
  "executeCommand_spawn w cmd args log =
     (let request = spawn cmd args True
      in on_child_events (child w request) [] [] (log @ [Spawned request]))"

text \<open>
  \<open>index.ts\<close> runs the child through \<open>zx\<close>: \<open>$([cmd, ...args]).nothrow()\<close>. The
  promise settles when the child closes, with the output gathered so far and the exit
  code, which may be absent; \<open>nothrow\<close> makes it resolve whatever that code is.
\<close>

record process_output =
  po_stdout :: string
  po_stderr :: string
  po_exitCode :: "int option"

fun zx_nothrow :: "child_event list \<Rightarrow> string \<Rightarrow> string \<Rightarrow> process_output completion" where
  "zx_nothrow [] out err = Pending"
| "zx_nothrow (StdoutData d # evs) out err = zx_nothrow evs (out @ d) err"
| "zx_nothrow (StderrData d # evs) out err = zx_nothrow evs out (err @ d)"
| "zx_nothrow (Close code # evs) out err =
     Normal \<lparr>po_stdout = out, po_stderr = err, po_exitCode = code\<rparr>"

definition executeCommand ::
  "world \<Rightarrow> string \<Rightarrow> string list \<Rightarrow> event list \<Rightarrow> exec_result completion \<times> event list" where
  "executeCommand w cmd args log =
     (let request = Zx (cmd # args)
      in await (zx_nothrow (child w request) [] [], log @ [Spawned request])
           (\<lambda>result log'.
              (Normal \<lparr>stdout = po_stdout result, stderr = po_stderr result,
                       exitCode = (case po_exitCode result of None \<Rightarrow> 0 | Some c \<Rightarrow> c)\<rparr>,
               log')))"

text \<open>
  The oldest variant has no runner of its own: its dispatcher builds the command text
  for the shell of \<open>bun\<close> itself, inserting \<open>fileArgs\<close> raw (unquoted).
\<close>

definition fileArgs :: "string list \<Rightarrow> string" where
  "fileArgs selectedFiles = ''-f '' @ join selectedFiles '' ''"

definition bun_encrypt_request :: "string list \<Rightarrow> spawn_request" where
  "bun_encrypt_request selectedFiles = Shell (''dotenvx encrypt '' @ fileArgs selectedFiles)"

section \<open>Orchestrator\<close>

definition usage :: string where
  "usage = [CHR 0x0A] @ ''dotenvx-interactive-cli'' @ [CHR 0x0A]
     @ ''Usage: dotenvx-interactive [options]'' @ [CHR 0x0A, CHR 0x0A]
     @ ''Options:'' @ [CHR 0x0A]
     @ ''  --help, -h     Show this help message'' @ [CHR 0x0A]"

text \<open>The top-level menu of \<open>main\<close>: a list prompt with four choices.\<close>

definition action_menu :: "world \<Rightarrow> event list \<Rightarrow> string completion \<times> event list" where
  "action_menu w log =
     (let log' = log @ [ListPrompt ''What would you like to do?''
                          [''encrypt'', ''decrypt'', ''precommit'', ''exit'']]
      in case list_prompt w of
           Inl e \<Rightarrow> (Throw e, log')
         | Inr action \<Rightarrow> (Normal action, log'))"

subsection \<open>\<open>src/index.ts\<close>\<close>

text \<open>
  The \<open>switch\<close> of \<open>main\<close>. The result of \<open>executeCommand\<close> is awaited and dropped in
  all three actions; the \<open>exit\<close> choice throws.
\<close>

definition main_switch :: "world \<Rightarrow> string \<Rightarrow> event list \<Rightarrow> unit completion \<times> event list" where
  "main_switch w action log =
     (if action = ''encrypt'' then
        try_catch
          (let files = findEnvFiles (cwd w)
           in await (selectFiles w files ''encrypt'' log)
                (\<lambda>selectedFiles log1.
                   if length selectedFiles > 0 then
                     await (executeCommand w ''dotenvx'' ([''encrypt'', ''-f''] @ selectedFiles) log1)
                       (\<lambda>result log2.
                          (Normal (), log2 @ [ConsoleLog [Str ''Files encrypted successfully'']]))
                   else (Normal (), log1 @ [ConsoleLog [Str ''No files selected for encryption'']])))
          (\<lambda>error log'. (Throw error, log' @ [ConsoleError [Str ''Error encrypting files:'', Obj error]]))
      else if action = ''decrypt'' then
        try_catch
          (let files = findEnvFiles (cwd w)
           in await (selectFiles w files ''decrypt'' log)
                (\<lambda>selectedFiles log1.
                   if length selectedFiles > 0 then
                     await (executeCommand w ''dotenvx'' ([''decrypt'', ''-f''] @ selectedFiles) log1)
                       (\<lambda>result log2.
                          (Normal (), log2 @ [ConsoleLog [Str ''Files decrypted successfully'']]))
                   else (Normal (), log1 @ [ConsoleLog [Str ''No files selected for decryption'']])))
          (\<lambda>error log'. (Throw error, log' @ [ConsoleError [Str ''Error decrypting files:'', Obj error]]))
      else if action = ''precommit'' then
        try_catch
          (await (executeCommand w ''dotenvx'' [''ext'', ''precommit'', ''--install''] log)
             (\<lambda>result log1.
                (Normal (), log1 @ [ConsoleLog [Str ''Precommit hook installed successfully'']])))
          (\<lambda>error log'.
             (Throw error, log' @ [ConsoleError [Str ''Error installing precommit hook:'', Obj error]]))
      else if action = ''exit'' then (Throw (new_Error ''User exited''), log)
      else (Normal (), log))"

definition main :: "world \<Rightarrow> event list \<Rightarrow> unit completion \<times> event list" where
  "main w log0 =
     (let log1 = log0 @ [ConsoleLog [Str ''dotenvx-interactive-cli'']]
      in if ''--help'' \<in> set (argv w) \<or> ''-h'' \<in> set (argv w)
         then (ProcessExit 0, log1 @ [ConsoleLog [Str usage], TimeEnd ''Help Flag Check''])
         else
           (let log2 = log1 @ [TimeEnd ''Help Flag Check''];
                isDotenvxInstalled = checkDotenvxInstallation w;
                isEnvKeysFilePresent = checkEnvKeysFile w;
                log3 = log2 @ [TimeEnd ''Startup Checks'']
            in if \<not> isDotenvxInstalled
               then (Throw (new_Error ''dotenvx not installed''),
                     log3 @ [ConsoleLog [Str ''dotenvx is not installed on your system.''],
                             ConsoleLog [Str ''Please install it using: npm install -g @dotenvx/dotenvx'']])
               else if \<not> isEnvKeysFilePresent
               then (Throw (new_Error ''.env.keys file not found''),
                     log3 @ [ConsoleLog [Str ''No .env.keys file found. Please create one to proceed.'']])
               else
                 (let log4 = log3 @ [ConsoleLog [Str ''dotenvx is installed''],
                                     TimeEnd ''Total Initialization Time'', ConsoleLog []]
                  in await (action_menu w log4)
                       (\<lambda>action log5. main_switch w action (log5 @ [ConsoleLog []])))))"

text \<open>
  The script's last statement, \<open>main().catch(...)\<close>, and the end of the process: exit
  code 0 when \<open>main\<close> returns, exit code 1 from the handler of \<open>catch\<close> for every
  error. Each failure of \<open>main\<close> rejects the promise this handler is attached to, so
  the listener registered for \<open>uncaughtException\<close> is not reached.
\<close>

definition program :: "world \<Rightarrow> exit_status \<times> event list" where
  "program w =
     (case main w [] of
        (Normal u, log) \<Rightarrow> (Exited 0, log)
      | (Throw err, log) \<Rightarrow> (Exited 1, log @ [ConsoleError [Str ''An error occurred:'', Obj err]])
      | (ProcessExit c, log) \<Rightarrow> (Exited c, log)
      | (Pending, log) \<Rightarrow> (Hung, log))"

subsection \<open>The \<open>spawn\<close> variant of \<open>index.ts\<close>\<close>

text \<open>Here \<open>decrypt\<close> inspects the exit code; \<open>encrypt\<close> and \<open>precommit\<close> do not.\<close>

definition main_switch_spawn :: "world \<Rightarrow> string \<Rightarrow> event list \<Rightarrow> unit completion \<times> event list" where
  "main_switch_spawn w action log =
     (if action = ''encrypt'' then
        try_catch
          (let files = findEnvFiles (cwd w)
           in await (selectFiles w files ''encrypt'' log)
                (\<lambda>selectedFiles log1.
                   if length selectedFiles > 0 then
                     await (executeCommand_spawn w ''dotenvx'' ([''encrypt'', ''-f''] @ selectedFiles) log1)
                       (\<lambda>result log2.
                          (Normal (), log2 @ [ConsoleLog [Str ''Files encrypted successfully'']]))
                   else (Normal (), log1 @ [ConsoleLog [Str ''No files selected for encryption'']])))
          (\<lambda>error log'. (Throw error, log' @ [ConsoleError [Str ''Error encrypting files:'', Obj error]]))
      else if action = ''decrypt'' then
        try_catch
          (let files = findEnvFiles (cwd w)
           in await (selectFiles w files ''decrypt'' log)
                (\<lambda>selectedFiles log1.
                   if length selectedFiles > 0 then
                     await (executeCommand_spawn w ''dotenvx'' ([''decrypt'', ''-f''] @ selectedFiles) log1)
                       (\<lambda>execResult log2.
                          if exitCode execResult = 0
                          then (Normal (), log2 @ [ConsoleLog [Str ''Files decrypted successfully'']])
                          else (Normal (), log2 @ [ConsoleError [Str ''Failed to decrypt files:'',
                                                                 Str (stderr execResult)]]))
                   else (Normal (), log1 @ [ConsoleLog [Str ''No files selected for decryption'']])))
          (\<lambda>error log'. (Throw error, log' @ [ConsoleError [Str ''Error decrypting files:'', Obj error]]))
      else if action = ''precommit'' then
        try_catch
          (await (executeCommand_spawn w ''dotenvx'' [''ext'', ''precommit'', ''--install''] log)
             (\<lambda>result log1.
                (Normal (), log1 @ [ConsoleLog [Str ''Precommit hook installed successfully'']])))
          (\<lambda>error log'.
             (Throw error, log' @ [ConsoleError [Str ''Error installing precommit hook:'', Obj error]]))
      else if action = ''exit'' then (Throw (new_Error ''User exited''), log)
      else (Normal (), log))"

definition main_spawn :: "world \<Rightarrow> event list \<Rightarrow> unit completion \<times> event list" where
  "main_spawn w log0 =
     (let log1 = log0 @ [ConsoleLog [Str ''dotenvx-interactive-cli'']]
      in if ''--help'' \<in> set (argv w) \<or> ''-h'' \<in> set (argv w)
         then (ProcessExit 0, log1 @ [ConsoleLog [Str usage]])
         else
           (let isDotenvxInstalled = checkDotenvxInstallation w;
                isEnvKeysFilePresent = checkEnvKeysFile w
            in if \<not> isDotenvxInstalled
               then (Throw (new_Error ''dotenvx not installed''),
                     log1 @ [ConsoleLog [Str ''dotenvx is not installed on your system.''],
                             ConsoleLog [Str ''Please install it using: npm install -g @dotenvx/dotenvx'']])
               else if \<not> isEnvKeysFilePresent
               then (Throw (new_Error ''.env.keys file not found''),
                     log1 @ [ConsoleLog [Str ''No .env.keys file found. Please create one to proceed.'']])
               else
                 (let log2 = log1 @ [ConsoleLog [Str ''dotenvx is installed''], ConsoleLog []]
                  in await (action_menu w log2)
                       (\<lambda>action log3. main_switch_spawn w action (log3 @ [ConsoleLog []])))))"

text \<open>
  \<open>main().catch(...)\<close> of this variant: an error named \<open>ExitPromptError\<close>, or one
  flagged \<open>isTtyError\<close>, ends the process with a farewell and exit code 0; any other
  error with exit code 1.
\<close>

definition program_spawn :: "world \<Rightarrow> exit_status \<times> event list" where
  "program_spawn w =
     (case main_spawn w [] of
        (Normal u, log) \<Rightarrow> (Exited 0, log)
      | (Throw err, log) \<Rightarrow>
          if err_name err = ''ExitPromptError'' \<or> isTtyError err
          then (Exited 0, log @ [ConsoleLog [Str ''Prompt exited. Until next time!'']])
          else (Exited 1, log @ [ConsoleError [Str ''An error occurred:'', Obj err]])
      | (ProcessExit c, log) \<Rightarrow> (Exited c, log)
      | (Pending, log) \<Rightarrow> (Hung, log))"

section \<open>Sample inputs\<close>

text \<open>
  A run in which both prerequisites hold, the operator picks \<open>encrypt\<close> and marks
  \<open>.env\<close>, and the child writes \<open>boom\<close> to its standard error and exits with code 2.
\<close>

definition sample_dir :: "dirent list" where
  "sample_dir =
     [\<lparr>entry_name = ''.env'', is_directory = False\<rparr>,
      \<lparr>entry_name = ''.env.local'', is_directory = False\<rparr>,
      \<lparr>entry_name = ''.env.keys'', is_directory = False\<rparr>,
      \<lparr>entry_name = ''.env.backup.keys'', is_directory = False\<rparr>,
      \<lparr>entry_name = ''.env.vault'', is_directory = False\<rparr>,
      \<lparr>entry_name = ''.env.d'', is_directory = True\<rparr>,
      \<lparr>entry_name = ''README.md'', is_directory = False\<rparr>]"

definition sample_world :: world where
  "sample_world =
     \<lparr>argv = [''node'', ''index.js''],
      which_status = Some 0,
      cwd = sample_dir,
      list_prompt = Inr ''encrypt'',
      checkbox_prompt = (\<lambda>choices. Inr [''.env'']),
      child = (\<lambda>request. [StderrData ''boom'', Close (Some 2)])\<rparr>"

definition interrupted :: js_error where
  "interrupted = JsError ''ExitPromptError'' ''User force closed the prompt'' False"

text \<open>The child's termination: the status of its first \<open>close\<close> event, if there is one.\<close>

fun first_close :: "child_event list \<Rightarrow> int option option" where
  "first_close [] = None"
| "first_close (Close code # evs) = Some code"
| "first_close (e # evs) = first_close evs"

section \<open>Properties of file discovery\<close>

lemma glob_match_literal:
  "CHR ''*'' \<notin> set lit \<Longrightarrow> glob_match lit s \<longleftrightarrow> s = lit"
proof (induction lit arbitrary: s)
  case Nil
  then show ?case by (cases s) simp_all
next
  case (Cons p ps)
  then show ?case by (cases s) auto
qed

lemma glob_match_star_all: "glob_match ''*'' s"
  by (induction s) simp_all

lemma glob_match_prefix_star:
  "CHR ''*'' \<notin> set lit \<Longrightarrow> glob_match (lit @ ''*'') s \<longleftrightarrow> prefix lit s"
proof (induction lit arbitrary: s)
  case Nil
  then show ?case using glob_match_star_all by simp
next
  case (Cons p ps)
  then show ?case by (cases s) auto
qed

lemma glob_match_star_suffix:
  "CHR ''*'' \<notin> set lit \<Longrightarrow> glob_match (CHR ''*'' # lit) s \<longleftrightarrow> suffix lit s"
proof (induction s)
  case Nil
  then show ?case by (cases lit) auto
next
  case (Cons c cs)
  then show ?case
    by (simp add: glob_match_literal suffix_Cons) blast
qed

lemma glob_match_env: "glob_match ''.env*'' s \<longleftrightarrow> prefix ''.env'' s"
  using glob_match_prefix_star [of "''.env''" s] by simp

lemma glob_match_vault: "glob_match ''*.vault'' s \<longleftrightarrow> suffix ''.vault'' s"
  using glob_match_star_suffix [of "''.vault''" s] by simp

lemma glob_match_keys: "glob_match ''.env.keys'' s \<longleftrightarrow> s = ''.env.keys''"
  using glob_match_literal [of "''.env.keys''" s] by simp

lemma glob_match_keys_json: "glob_match ''.env.keys.json'' s \<longleftrightarrow> s = ''.env.keys.json''"
  using glob_match_literal [of "''.env.keys.json''" s] by simp

lemma findEnvFiles_filter:
  "findEnvFiles dir =
     map entry_name
       (filter (\<lambda>e. prefix ''.env'' (entry_name e)
                  \<and> entry_name e \<noteq> ''.env.keys''
                  \<and> entry_name e \<noteq> ''.env.keys.json''
                  \<and> \<not> is_directory e
                  \<and> \<not> suffix ''.keys'' (entry_name e)
                  \<and> \<not> suffix ''.vault'' (entry_name e)) dir)"
proof -
  have "filter (\<lambda>e. \<not> suffix ''.keys'' (entry_name e) \<and> \<not> suffix ''.vault'' (entry_name e))
          (filter (\<lambda>e. prefix ''.env'' (entry_name e)
                  \<and> \<not> (entry_name e = ''.env.keys'' \<or> entry_name e = ''.env.keys.json''
                        \<or> suffix ''.vault'' (entry_name e))
                  \<and> \<not> is_directory e) dir)
        = filter (\<lambda>e. prefix ''.env'' (entry_name e)
                  \<and> entry_name e \<noteq> ''.env.keys''
                  \<and> entry_name e \<noteq> ''.env.keys.json''
                  \<and> \<not> is_directory e
                  \<and> \<not> suffix ''.keys'' (entry_name e)
                  \<and> \<not> suffix ''.vault'' (entry_name e)) dir"
    unfolding filter_filter by (rule filter_cong) auto
  then show ?thesis
    by (simp add: findEnvFiles_def glob_def endsWith_def filter_map comp_def
        glob_match_env glob_match_vault glob_match_keys glob_match_keys_json)
qed

lemma sample_files: "findEnvFiles sample_dir = [''.env'', ''.env.local'']"
  by (simp add: findEnvFiles_filter sample_dir_def suffix_to_prefix)

text \<open>
  C2, as the specification states it: discovery returns exactly the regular files whose
  names begin with \<open>.env\<close>, minus the key file, its JSON variant and the files with the
  vault suffix. It fails for a directory that holds \<open>.env.backup.keys\<close>: the
  description keeps that file, \<open>findEnvFiles\<close> drops it.
\<close>

theorem findEnvFiles_not_discover_spec:
  "set (findEnvFiles [\<lparr>entry_name = ''.env.backup.keys'', is_directory = False\<rparr>])
     \<noteq> set (discover_spec [\<lparr>entry_name = ''.env.backup.keys'', is_directory = False\<rparr>])"
  by (simp add: findEnvFiles_filter discover_spec_def suffix_to_prefix)

text \<open>
  C2, amended: for every directory state \<open>findEnvFiles\<close> returns, in enumeration order,
  exactly the entries that are not directories and whose names begin with \<open>.env\<close>,
  minus the key file, its JSON variant, every name ending in \<open>.keys\<close> and every name
  ending in \<open>.vault\<close>. Entries whose names do not begin with \<open>.env\<close> never change the
  result, and a directory without a matching name gives the empty list; the function is
  total, so there is no error.
\<close>

theorem findEnvFiles_discover_amended:
  "findEnvFiles dir = discover_amended dir
   \<and> findEnvFiles (filter (\<lambda>e. prefix ''.env'' (entry_name e)) dir) = findEnvFiles dir
   \<and> (filter (\<lambda>e. prefix ''.env'' (entry_name e)) dir = [] \<longrightarrow> findEnvFiles dir = [])"
proof (intro conjI impI)
  show "findEnvFiles dir = discover_amended dir"
    unfolding findEnvFiles_filter discover_amended_def
    by (rule arg_cong [where f = "map entry_name"], rule filter_cong) auto
  show eq: "findEnvFiles (filter (\<lambda>e. prefix ''.env'' (entry_name e)) dir) = findEnvFiles dir"
    unfolding findEnvFiles_filter filter_filter
    by (rule arg_cong [where f = "map entry_name"], rule filter_cong) auto
  assume "filter (\<lambda>e. prefix ''.env'' (entry_name e)) dir = []"
  with eq show "findEnvFiles dir = []"
    by (simp add: findEnvFiles_filter)
qed

theorem findEnvFiles_discover_amended_witness:
  "findEnvFiles sample_dir = discover_amended sample_dir
   \<and> findEnvFiles sample_dir = [''.env'', ''.env.local'']
   \<and> filter (\<lambda>e. prefix ''.env'' (entry_name e)) [\<lparr>entry_name = ''README.md'', is_directory = False\<rparr>] = []
   \<and> findEnvFiles [\<lparr>entry_name = ''README.md'', is_directory = False\<rparr>] = []"
  using findEnvFiles_discover_amended [of sample_dir]
    findEnvFiles_discover_amended [of "[\<lparr>entry_name = ''README.md'', is_directory = False\<rparr>]"]
  by (simp add: sample_files discover_amended_def)

text \<open>
  C10: every candidate that \<open>findEnvFiles\<close> returns has a name that begins with
  \<open>.env\<close> and ends neither in \<open>.keys\<close> nor in \<open>.vault\<close>; so no candidate is the string
  \<open>ALL\<close>, the value of the select-all choice of the prompt.
\<close>

theorem findEnvFiles_candidates:
  assumes "f \<in> set (findEnvFiles dir)"
  shows "prefix ''.env'' f \<and> \<not> suffix ''.keys'' f \<and> \<not> suffix ''.vault'' f \<and> f \<noteq> ''ALL''"
  using assms by (auto simp: findEnvFiles_filter)

theorem findEnvFiles_candidates_witness:
  "''.env.local'' \<in> set (findEnvFiles sample_dir)
   \<and> ''.env.backup.keys'' \<notin> set (findEnvFiles sample_dir)
   \<and> prefix ''.env'' ''.env.local'' \<and> \<not> suffix ''.keys'' ''.env.local''
   \<and> \<not> suffix ''.vault'' ''.env.local'' \<and> ''.env.local'' \<noteq> ''ALL''"
  using findEnvFiles_candidates [of "''.env.local''" sample_dir]
  by (simp add: sample_files)

section \<open>Properties of the selection prompt\<close>

text \<open>
  C4: for a non-empty candidate list, when the selection the operator confirms holds the
  \<open>ALL\<close> choice, \<open>selectFiles\<close> returns the whole candidate list, whatever else is
  marked.
\<close>

theorem selectFiles_all:
  assumes "files \<noteq> []"
    and "checkbox_prompt w (''ALL'' # files) = Inr selected"
    and "''ALL'' \<in> set selected"
  shows "fst (selectFiles w files action log) = Normal files"
  using assms by (simp add: selectFiles_def)

theorem selectFiles_all_witness:
  "[''./.env'', ''./.env.local''] \<noteq> []
   \<and> checkbox_prompt (sample_world\<lparr>checkbox_prompt := (\<lambda>choices. Inr [''ALL'', ''./.env''])\<rparr>)
        (''ALL'' # [''./.env'', ''./.env.local'']) = Inr [''ALL'', ''./.env'']
   \<and> ''ALL'' \<in> set [''ALL'', ''./.env'']
   \<and> fst (selectFiles (sample_world\<lparr>checkbox_prompt := (\<lambda>choices. Inr [''ALL'', ''./.env''])\<rparr>)
            [''./.env'', ''./.env.local''] ''encrypt'' []) = Normal [''./.env'', ''./.env.local'']"
  using selectFiles_all [of "[''./.env'', ''./.env.local'']"
      "sample_world\<lparr>checkbox_prompt := (\<lambda>choices. Inr [''ALL'', ''./.env''])\<rparr>"
      "[''ALL'', ''./.env'']" "''encrypt''" "[]"]
  by simp

text \<open>
  C8: for the empty candidate list \<open>selectFiles\<close> returns the empty selection at once.
  The trace gains one console line and no prompt, and the result is the same whatever
  the prompt would do, also when it would fail.
\<close>

theorem selectFiles_empty:
  "selectFiles w [] action log
     = (Normal [], log @ [ConsoleLog [Str ''No .env files found in the current directory.'']])
   \<and> selectFiles (w\<lparr>checkbox_prompt := p\<rparr>) [] action log = selectFiles w [] action log
   \<and> CheckboxPrompt message choices \<notin> set (snd (selectFiles w [] action []))"
  by (simp add: selectFiles_def)

section \<open>Properties of the subprocess runner\<close>

lemma on_child_events_pending:
  "first_close evs = None \<Longrightarrow> fst (on_child_events evs out err log) = Pending"
  by (induction evs out err log rule: on_child_events.induct) simp_all

lemma on_child_events_closed:
  "first_close evs = Some code \<Longrightarrow>
     \<exists>r. fst (on_child_events evs out err log) = Normal r
        \<and> exitCode r = (case code of None \<Rightarrow> 0 | Some c \<Rightarrow> c)"
  by (induction evs out err log rule: on_child_events.induct) simp_all

lemma zx_nothrow_pending:
  "first_close evs = None \<Longrightarrow> zx_nothrow evs out err = Pending"
  by (induction evs out err rule: zx_nothrow.induct) simp_all

lemma zx_nothrow_closed:
  "first_close evs = Some code \<Longrightarrow>
     \<exists>r. zx_nothrow evs out err = Normal r \<and> po_exitCode r = code"
  by (induction evs out err rule: zx_nothrow.induct) simp_all

text \<open>
  C7: in both variants \<open>executeCommand\<close> stays unsettled while the child has not closed;
  once the child closes it returns, with the child's exit status as the exit code, or 0
  when the status is absent; and it never throws, whatever the exit status is.
\<close>

theorem executeCommand_exit_status:
  "(first_close (child w (spawn cmd args True)) = None \<longrightarrow>
      fst (executeCommand_spawn w cmd args log) = Pending)
   \<and> (first_close (child w (spawn cmd args True)) = Some code \<longrightarrow>
        (\<exists>r. fst (executeCommand_spawn w cmd args log) = Normal r
             \<and> exitCode r = (case code of None \<Rightarrow> 0 | Some c \<Rightarrow> c)))
   \<and> (first_close (child w (Zx (cmd # args))) = None \<longrightarrow>
        fst (executeCommand w cmd args log) = Pending)
   \<and> (first_close (child w (Zx (cmd # args))) = Some code \<longrightarrow>
        (\<exists>r. fst (executeCommand w cmd args log) = Normal r
             \<and> exitCode r = (case code of None \<Rightarrow> 0 | Some c \<Rightarrow> c)))
   \<and> fst (executeCommand_spawn w cmd args log) \<noteq> Throw e
   \<and> fst (executeCommand w cmd args log) \<noteq> Throw e"
proof -
  let ?evs = "child w (spawn cmd args True)" and ?zevs = "child w (Zx (cmd # args))"
  have spawn_run: "fst (executeCommand_spawn w cmd args log)
      = fst (on_child_events ?evs [] [] (log @ [Spawned (spawn cmd args True)]))"
    by (simp add: executeCommand_spawn_def Let_def)
  have zx_run: "fst (executeCommand w cmd args log)
      = (case zx_nothrow ?zevs [] [] of
           Normal result \<Rightarrow>
             Normal \<lparr>stdout = po_stdout result, stderr = po_stderr result,
                     exitCode = (case po_exitCode result of None \<Rightarrow> 0 | Some c \<Rightarrow> c)\<rparr>
         | Throw x \<Rightarrow> Throw x | ProcessExit c \<Rightarrow> ProcessExit c | Pending \<Rightarrow> Pending)"
    by (cases "zx_nothrow ?zevs [] []") (simp_all add: executeCommand_def Let_def)
  show ?thesis
  proof (intro conjI impI)
    assume "first_close ?evs = None"
    then show "fst (executeCommand_spawn w cmd args log) = Pending"
      by (simp add: spawn_run on_child_events_pending)
  next
    assume "first_close ?evs = Some code"
    then show "\<exists>r. fst (executeCommand_spawn w cmd args log) = Normal r
        \<and> exitCode r = (case code of None \<Rightarrow> 0 | Some c \<Rightarrow> c)"
      unfolding spawn_run by (rule on_child_events_closed)
  next
    assume "first_close ?zevs = None"
    then show "fst (executeCommand w cmd args log) = Pending"
      by (simp add: zx_run zx_nothrow_pending)
  next
    assume "first_close ?zevs = Some code"
    from zx_nothrow_closed [OF this, of "[]" "[]"]
    show "\<exists>r. fst (executeCommand w cmd args log) = Normal r
        \<and> exitCode r = (case code of None \<Rightarrow> 0 | Some c \<Rightarrow> c)"
      by (auto simp: zx_run)
  next
    show "fst (executeCommand_spawn w cmd args log) \<noteq> Throw e"
    proof (cases "first_close ?evs")
      case None
      then show ?thesis by (simp add: spawn_run on_child_events_pending)
    next
      case (Some c)
      from on_child_events_closed [OF this] show ?thesis
        unfolding spawn_run by (metis completion.distinct(1))
    qed
  next
    show "fst (executeCommand w cmd args log) \<noteq> Throw e"
    proof (cases "first_close ?zevs")
      case None
      then show ?thesis by (simp add: zx_run zx_nothrow_pending)
    next
      case (Some c)
      from zx_nothrow_closed [OF this, of "[]" "[]"] show ?thesis
        by (auto simp: zx_run)
    qed
  qed
qed

theorem executeCommand_exit_status_witness:
  "first_close (child sample_world (spawn ''dotenvx'' [''encrypt'', ''-f'', ''.env''] True))
     = Some (Some 2)
   \<and> (\<exists>r. fst (executeCommand_spawn sample_world ''dotenvx'' [''encrypt'', ''-f'', ''.env''] [])
            = Normal r \<and> exitCode r = 2)
   \<and> first_close (child sample_world (Zx [''dotenvx'', ''encrypt'', ''-f'', ''.env'']))
     = Some (Some 2)
   \<and> (\<exists>r. fst (executeCommand sample_world ''dotenvx'' [''encrypt'', ''-f'', ''.env''] [])
            = Normal r \<and> exitCode r = 2)
   \<and> first_close (child (sample_world\<lparr>child := (\<lambda>request. [Close None])\<rparr>)
        (spawn ''dotenvx'' [''ext''] True)) = Some None
   \<and> (\<exists>r. fst (executeCommand_spawn (sample_world\<lparr>child := (\<lambda>request. [Close None])\<rparr>)
              ''dotenvx'' [''ext''] []) = Normal r \<and> exitCode r = 0)
   \<and> first_close (child (sample_world\<lparr>child := (\<lambda>request. [StdoutData ''x''])\<rparr>)
        (spawn ''dotenvx'' [''ext''] True)) = None
   \<and> fst (executeCommand_spawn (sample_world\<lparr>child := (\<lambda>request. [StdoutData ''x''])\<rparr>)
              ''dotenvx'' [''ext''] []) = Pending"
  using executeCommand_exit_status
      [where w = sample_world and cmd = "''dotenvx''" and args = "[''encrypt'', ''-f'', ''.env'']"
         and code = "Some 2" and log = "[]"]
    executeCommand_exit_status
      [where w = "sample_world\<lparr>child := (\<lambda>request. [Close None])\<rparr>" and cmd = "''dotenvx''"
         and args = "[''ext'']" and code = None and log = "[]"]
    executeCommand_exit_status
      [where w = "sample_world\<lparr>child := (\<lambda>request. [StdoutData ''x''])\<rparr>" and cmd = "''dotenvx''"
         and args = "[''ext'']" and code = None and log = "[]"]
  by (simp add: sample_world_def)

text \<open>
  C1 says that the runner hands the arguments to the child as a list and never as one
  shell string. The \<open>spawn\<close> variant starts the child with the \<open>shell\<close> option, so the
  request is one command line: the file name \<open>.env local\<close> as one argument and the two
  arguments \<open>.env\<close> and \<open>local\<close> give the same request, in every world, and so the same
  run. The oldest variant joins the selected files itself, with the same effect.
\<close>

theorem executeCommand_spawn_joins_arguments:
  "executeCommand_spawn w ''dotenvx'' [''encrypt'', ''-f'', ''.env local''] log
     = executeCommand_spawn w ''dotenvx'' [''encrypt'', ''-f'', ''.env'', ''local''] log
   \<and> spawn ''dotenvx'' [''encrypt'', ''-f'', ''.env local''] True
     = Shell ''dotenvx encrypt -f .env local''
   \<and> bun_encrypt_request [''.env local''] = bun_encrypt_request [''.env'', ''local'']"
  by (simp add: executeCommand_spawn_def spawn_def bun_encrypt_request_def fileArgs_def)

section \<open>Properties of the orchestrator\<close>

lemmas run_defs = program_def main_def checkDotenvxInstallation_def checkEnvKeysFile_def
  action_menu_def main_switch_def selectFiles_def executeCommand_def
  program_spawn_def main_spawn_def main_switch_spawn_def executeCommand_spawn_def spawn_def
  sample_world_def sample_dir_def interrupted_def new_Error_def Let_def

text \<open>
  The runs below hold in every world, not only in the sample: whatever the child's exit
  status is, \<open>index.ts\<close> reports success once the child has closed.
\<close>

lemma executeCommand_closed:
  assumes "first_close (child w (Zx (cmd # args))) = Some code"
  shows "\<exists>r. \<forall>log. executeCommand w cmd args log
            = (Normal r, log @ [Spawned (Zx (cmd # args))])"
proof -
  from zx_nothrow_closed [OF assms, of "[]" "[]"]
  obtain r where "zx_nothrow (child w (Zx (cmd # args))) [] [] = Normal r" by blast
  then show ?thesis by (simp add: executeCommand_def Let_def)
qed

lemma precommit_ignores_exit_code:
  assumes "''--help'' \<notin> set (argv w)" and "''-h'' \<notin> set (argv w)"
    and "checkDotenvxInstallation w" and "checkEnvKeysFile w"
    and "list_prompt w = Inr ''precommit''"
    and "first_close (child w (Zx [''dotenvx'', ''ext'', ''precommit'', ''--install''])) = Some code"
  shows "fst (program w) = Exited 0
    \<and> ConsoleLog [Str ''Precommit hook installed successfully''] \<in> set (snd (program w))"
proof -
  from executeCommand_closed [OF assms(6)]
  obtain r where "\<And>log. executeCommand w ''dotenvx'' [''ext'', ''precommit'', ''--install''] log
      = (Normal r, log @ [Spawned (Zx [''dotenvx'', ''ext'', ''precommit'', ''--install''])])"
    by blast
  with assms show ?thesis
    by (simp add: program_def main_def action_menu_def main_switch_def Let_def)
qed

lemma encrypt_ignores_exit_code:
  assumes "selectFiles w (findEnvFiles (cwd w)) ''encrypt'' log0 = (Normal selected, log1)"
    and "selected \<noteq> []"
    and "first_close (child w (Zx ([''dotenvx'', ''encrypt'', ''-f''] @ selected))) = Some code"
  shows "fst (main_switch w ''encrypt'' log0) = Normal ()
    \<and> ConsoleLog [Str ''Files encrypted successfully''] \<in> set (snd (main_switch w ''encrypt'' log0))"
proof -
  from executeCommand_closed [of w "''dotenvx''" "[''encrypt'', ''-f''] @ selected" code] assms(3)
  obtain r where "\<And>log. executeCommand w ''dotenvx'' ([''encrypt'', ''-f''] @ selected) log
      = (Normal r, log @ [Spawned (Zx (''dotenvx'' # [''encrypt'', ''-f''] @ selected))])"
    by auto
  with assms show ?thesis
    by (simp add: main_switch_def Let_def)
qed

text \<open>The \<open>Exit\<close> choice ends with exit code 1 in every world that reaches the menu.\<close>

lemma exit_choice_any_world:
  assumes "''--help'' \<notin> set (argv w)" and "''-h'' \<notin> set (argv w)"
    and "checkDotenvxInstallation w" and "checkEnvKeysFile w"
    and "list_prompt w = Inr ''exit''"
  shows "fst (program w) = Exited 1 \<and> fst (program_spawn w) = Exited 1"
  using assms
  by (simp add: program_def main_def program_spawn_def main_spawn_def action_menu_def
      main_switch_def main_switch_spawn_def new_Error_def Let_def)

text \<open>
  An interrupted selection prompt, in every world that reaches it: no child is started
  in either variant; \<open>index.ts\<close> ends with exit code 1, the \<open>spawn\<close> variant with exit
  code 0 when the error is named \<open>ExitPromptError\<close>.
\<close>

lemma selectFiles_cancelled:
  assumes "files \<noteq> []" and "checkbox_prompt w (''ALL'' # files) = Inl e"
  shows "selectFiles w files action log
     = (Throw e, log @ [CheckboxPrompt (''Select .env files to '' @ action @ '':'' @ [CHR 0x0A])
                          (''ALL'' # files)])"
  using assms by (simp add: selectFiles_def)

lemma cancelled_selection_any_world:
  assumes "''--help'' \<notin> set (argv w)" and "''-h'' \<notin> set (argv w)"
    and "checkDotenvxInstallation w" and "checkEnvKeysFile w"
    and "list_prompt w = Inr ''encrypt'' \<or> list_prompt w = Inr ''decrypt''"
    and "findEnvFiles (cwd w) \<noteq> []"
    and "checkbox_prompt w (''ALL'' # findEnvFiles (cwd w)) = Inl e"
  shows "fst (program w) = Exited 1"
    and "Spawned request \<notin> set (snd (program w))"
    and "err_name e = ''ExitPromptError'' \<Longrightarrow> fst (program_spawn w) = Exited 0"
    and "Spawned request \<notin> set (snd (program_spawn w))"
  using assms
  by (auto simp: program_def main_def program_spawn_def main_spawn_def action_menu_def
      main_switch_def main_switch_spawn_def selectFiles_cancelled Let_def split: if_splits)

text \<open>
  C3 says that a child that exits with a non-zero code makes the run end with exit code
  1 and a failure message that carries the captured standard error. In the sample run
  the child writes \<open>boom\<close> to its standard error and exits with code 2: \<open>index.ts\<close>
  prints the success message, and the process ends with exit code 0 for each of the
  three actions, in both variants.
\<close>

theorem nonzero_exit_reported_as_success:
  "program sample_world =
     (Exited 0,
      [ConsoleLog [Str ''dotenvx-interactive-cli''],
       TimeEnd ''Help Flag Check'', TimeEnd ''Startup Checks'',
       ConsoleLog [Str ''dotenvx is installed''],
       TimeEnd ''Total Initialization Time'', ConsoleLog [],
       ListPrompt ''What would you like to do?'' [''encrypt'', ''decrypt'', ''precommit'', ''exit''],
       ConsoleLog [],
       CheckboxPrompt (''Select .env files to encrypt:'' @ [CHR 0x0A]) [''ALL'', ''.env'', ''.env.local''],
       Spawned (Zx [''dotenvx'', ''encrypt'', ''-f'', ''.env'']),
       ConsoleLog [Str ''Files encrypted successfully'']])
   \<and> fst (program (sample_world\<lparr>list_prompt := Inr ''decrypt''\<rparr>)) = Exited 0
   \<and> fst (program (sample_world\<lparr>list_prompt := Inr ''precommit''\<rparr>)) = Exited 0
   \<and> fst (program_spawn sample_world) = Exited 0
   \<and> fst (program_spawn (sample_world\<lparr>list_prompt := Inr ''decrypt''\<rparr>)) = Exited 0
   \<and> fst (program_spawn (sample_world\<lparr>list_prompt := Inr ''precommit''\<rparr>)) = Exited 0"
  by (simp add: run_defs sample_files [unfolded sample_dir_def])

text \<open>
  Only \<open>decrypt\<close> of the \<open>spawn\<close> variant looks at the exit code: it reports the
  failure with the captured standard error, and the process still ends with exit code 0.
\<close>

lemma decrypt_spawn_reports_stderr:
  "program_spawn (sample_world\<lparr>list_prompt := Inr ''decrypt''\<rparr>) =
     (Exited 0,
      [ConsoleLog [Str ''dotenvx-interactive-cli''],
       ConsoleLog [Str ''dotenvx is installed''], ConsoleLog [],
       ListPrompt ''What would you like to do?'' [''encrypt'', ''decrypt'', ''precommit'', ''exit''],
       ConsoleLog [],
       CheckboxPrompt (''Select .env files to decrypt:'' @ [CHR 0x0A]) [''ALL'', ''.env'', ''.env.local''],
       Spawned (Shell ''dotenvx decrypt -f .env''),
       StderrWrite ''boom'',
       ConsoleError [Str ''Failed to decrypt files:'', Str ''boom'']])"
  by (simp add: run_defs sample_files [unfolded sample_dir_def])

text \<open>
  C5 says that the \<open>Exit\<close> choice of the menu ends the process with exit code 0. The
  choice throws \<open>Error("User exited")\<close>, which the handler of \<open>main().catch\<close> reports as
  an error: the process ends with exit code 1, in both variants.
\<close>

theorem exit_choice_exits_1:
  "program (sample_world\<lparr>list_prompt := Inr ''exit''\<rparr>) =
     (Exited 1,
      [ConsoleLog [Str ''dotenvx-interactive-cli''],
       TimeEnd ''Help Flag Check'', TimeEnd ''Startup Checks'',
       ConsoleLog [Str ''dotenvx is installed''],
       TimeEnd ''Total Initialization Time'', ConsoleLog [],
       ListPrompt ''What would you like to do?'' [''encrypt'', ''decrypt'', ''precommit'', ''exit''],
       ConsoleLog [],
       ConsoleError [Str ''An error occurred:'', Obj (new_Error ''User exited'')]])
   \<and> fst (program_spawn (sample_world\<lparr>list_prompt := Inr ''exit''\<rparr>)) = Exited 1"
  by (simp add: run_defs)

text \<open>
  C6 says that a selection prompt the operator interrupts ends the run with a friendly
  message and exit code 0. In \<open>index.ts\<close> the rejection of the prompt is reported twice
  as an error and the process ends with exit code 1; no child is started.
\<close>

theorem cancelled_selection_exits_1:
  "program (sample_world\<lparr>checkbox_prompt := (\<lambda>choices. Inl interrupted)\<rparr>) =
     (Exited 1,
      [ConsoleLog [Str ''dotenvx-interactive-cli''],
       TimeEnd ''Help Flag Check'', TimeEnd ''Startup Checks'',
       ConsoleLog [Str ''dotenvx is installed''],
       TimeEnd ''Total Initialization Time'', ConsoleLog [],
       ListPrompt ''What would you like to do?'' [''encrypt'', ''decrypt'', ''precommit'', ''exit''],
       ConsoleLog [],
       CheckboxPrompt (''Select .env files to encrypt:'' @ [CHR 0x0A]) [''ALL'', ''.env'', ''.env.local''],
       ConsoleError [Str ''Error encrypting files:'', Obj interrupted],
       ConsoleError [Str ''An error occurred:'', Obj interrupted]])"
  by (simp add: run_defs sample_files [unfolded sample_dir_def])

text \<open>
  The \<open>spawn\<close> variant does what \<open>index.ts\<close> misses: the same interruption ends with the
  farewell and exit code 0, and no child is started.
\<close>

lemma cancelled_selection_spawn_variant:
  "program_spawn (sample_world\<lparr>checkbox_prompt := (\<lambda>choices. Inl interrupted)\<rparr>) =
     (Exited 0,
      [ConsoleLog [Str ''dotenvx-interactive-cli''],
       ConsoleLog [Str ''dotenvx is installed''], ConsoleLog [],
       ListPrompt ''What would you like to do?'' [''encrypt'', ''decrypt'', ''precommit'', ''exit''],
       ConsoleLog [],
       CheckboxPrompt (''Select .env files to encrypt:'' @ [CHR 0x0A]) [''ALL'', ''.env'', ''.env.local''],
       ConsoleError [Str ''Error encrypting files:'', Obj interrupted],
       ConsoleLog [Str ''Prompt exited. Until next time!'']])"
  by (simp add: run_defs sample_files [unfolded sample_dir_def])

text \<open>
  C9, as the specification states it: with the key file absent the remediation that asks
  for a key file is shown whether or not the vault tool is available. It fails when the
  tool is missing too: the run ends with exit code 1 after the install hint, and the
  key-file remediation is not printed.
\<close>

theorem key_remediation_needs_tool:
  "fst (program (sample_world\<lparr>which_status := Some 1, cwd := []\<rparr>)) = Exited 1
   \<and> ConsoleLog [Str ''No .env.keys file found. Please create one to proceed.'']
       \<notin> set (snd (program (sample_world\<lparr>which_status := Some 1, cwd := []\<rparr>)))"
  by (simp add: run_defs)

text \<open>
  C9, amended: on a run without the help flag, when the working directory has no entry
  \<open>.env.keys\<close> the probe reports the key file as absent and the process ends with exit
  code 1, whether or not the vault tool is available; the remediation that asks for a
  key file is printed exactly when the vault tool is available. Both variants agree.
\<close>

theorem missing_key_file_exits_1:
  assumes "''--help'' \<notin> set (argv w)" and "''-h'' \<notin> set (argv w)"
    and "''.env.keys'' \<notin> set (map entry_name (cwd w))"
  shows "\<not> checkEnvKeysFile w
    \<and> fst (program w) = Exited 1 \<and> fst (program_spawn w) = Exited 1
    \<and> (checkDotenvxInstallation w \<longrightarrow>
          ConsoleLog [Str ''No .env.keys file found. Please create one to proceed.''] \<in> set (snd (program w))
        \<and> ConsoleLog [Str ''No .env.keys file found. Please create one to proceed.''] \<in> set (snd (program_spawn w)))
    \<and> (\<not> checkDotenvxInstallation w \<longrightarrow>
          ConsoleLog [Str ''No .env.keys file found. Please create one to proceed.''] \<notin> set (snd (program w))
        \<and> ConsoleLog [Str ''No .env.keys file found. Please create one to proceed.''] \<notin> set (snd (program_spawn w)))"
  using assms
  by (simp add: program_def main_def program_spawn_def main_spawn_def checkEnvKeysFile_def
      new_Error_def Let_def)

theorem missing_key_file_exits_1_witness:
  "''--help'' \<notin> set (argv (sample_world\<lparr>cwd := []\<rparr>))
   \<and> ''-h'' \<notin> set (argv (sample_world\<lparr>cwd := []\<rparr>))
   \<and> ''.env.keys'' \<notin> set (map entry_name (cwd (sample_world\<lparr>cwd := []\<rparr>)))
   \<and> checkDotenvxInstallation (sample_world\<lparr>cwd := []\<rparr>)
   \<and> \<not> checkEnvKeysFile (sample_world\<lparr>cwd := []\<rparr>)
   \<and> fst (program (sample_world\<lparr>cwd := []\<rparr>)) = Exited 1
   \<and> fst (program_spawn (sample_world\<lparr>cwd := []\<rparr>)) = Exited 1
   \<and> ConsoleLog [Str ''No .env.keys file found. Please create one to proceed.'']
       \<in> set (snd (program (sample_world\<lparr>cwd := []\<rparr>)))
   \<and> ConsoleLog [Str ''No .env.keys file found. Please create one to proceed.'']
       \<in> set (snd (program_spawn (sample_world\<lparr>cwd := []\<rparr>)))"
  using missing_key_file_exits_1 [of "sample_world\<lparr>cwd := []\<rparr>"]
  by (simp add: sample_world_def checkDotenvxInstallation_def)

end
